theory Spec2Isabelle
  imports Complex_Main "HOL-Library.Word"
begin

section \<open>JavaScript strings\<close>

text \<open>
  A JavaScript string is a sequence of 16-bit UTF-16 code units.  The string literals of
  \<^verbatim>\<open>script.js\<close> are ASCII apart from the check mark of the subscribed button, so a
  literal is written \<open>js ''...''\<close>.
\<close>

type_synonym codeunit = "16 word"
type_synonym jsstring = "codeunit list"

definition js :: "string \<Rightarrow> jsstring" where
  "js s = map (\<lambda>c. of_nat (of_char c)) s"

text \<open>
  The code units that ECMAScript counts as white space or line terminator.  Both
  \<^verbatim>\<open>String.prototype.trim\<close> and the \<^verbatim>\<open>\s\<close> class of a regular expression use this
  set.
\<close>

definition is_space :: "codeunit \<Rightarrow> bool" where
  "is_space c = (c \<in> set [0x0009, 0x000A, 0x000B, 0x000C, 0x000D, 0x0020, 0x00A0, 0x1680,
                           0x2028, 0x2029, 0x202F, 0x205F, 0x3000, 0xFEFF]
                 \<or> (0x2000 \<le> c \<and> c \<le> 0x200A))"

definition trim :: "jsstring \<Rightarrow> jsstring" where
  "trim s = rev (dropWhile is_space (rev (dropWhile is_space s)))"

text \<open>Truthiness of the result of \<^verbatim>\<open>localStorage.getItem\<close>: \<^verbatim>\<open>null\<close> and the empty
  string are falsy, every other string is truthy.\<close>

definition truthy :: "jsstring option \<Rightarrow> bool" where
  "truthy v = (case v of None \<Rightarrow> False | Some s \<Rightarrow> s \<noteq> [])"

section \<open>Regular expressions of the shape used by the script\<close>

text \<open>
  The only regular expression of the subsystem is
  \<^verbatim>\<open>/^[^\s@]+@[^\s@]+\.[^\s@]+$/\<close>: anchored at both ends, without flags, a sequence of
  character atoms, some of them under \<^verbatim>\<open>+\<close>.  An atom is a literal code unit or a negated
  class whose members are literals or \<^verbatim>\<open>\s\<close>.
\<close>

datatype class_item = ILit codeunit | ISpace

datatype atom = Lit codeunit | NegClass "class_item list"

datatype piece = One atom | Plus atom

fun item_has :: "class_item \<Rightarrow> codeunit \<Rightarrow> bool" where
  "item_has (ILit a) c = (c = a)"
| "item_has ISpace c = is_space c"

fun atom_has :: "atom \<Rightarrow> codeunit \<Rightarrow> bool" where
  "atom_has (Lit a) c = (c = a)"
| "atom_has (NegClass items) c = (\<not> list_ex (\<lambda>i. item_has i c) items)"

text \<open>
  \<^verbatim>\<open>RegExp.prototype.test\<close> for an anchored pattern, as a backtracking matcher: a \<^verbatim>\<open>+\<close>
  first tries to take one more code unit and falls back to the rest of the pattern.  The
  empty pattern is the closing \<^verbatim>\<open>$\<close>.
\<close>

fun test :: "piece list \<Rightarrow> jsstring \<Rightarrow> bool" where
  "test [] s = (s = [])"
| "test (One a # ps) [] = False"
| "test (One a # ps) (c # cs) = (atom_has a c \<and> test ps cs)"
| "test (Plus a # ps) [] = False"
| "test (Plus a # ps) (c # cs) = (atom_has a c \<and> (test (Plus a # ps) cs \<or> test ps cs))"

definition at_sign :: codeunit where "at_sign = 0x40"
definition full_stop :: codeunit where "full_stop = 0x2E"

definition not_space_at :: atom where
  "not_space_at = NegClass [ISpace, ILit at_sign]"

definition emailRegex :: "piece list" where
  "emailRegex = [Plus not_space_at, One (Lit at_sign), Plus not_space_at,
                 One (Lit full_stop), Plus not_space_at]"

definition isValidEmail :: "jsstring \<Rightarrow> bool" where
  "isValidEmail email = test emailRegex email"

text \<open>
  The shape in words: a non-empty run of code units that are neither white space nor
  \<^verbatim>\<open>@\<close>, then \<^verbatim>\<open>@\<close>, a second such run, a full stop, and a third such run.
\<close>

definition plain :: "codeunit \<Rightarrow> bool" where
  "plain c = (\<not> is_space c \<and> c \<noteq> at_sign)"

definition email_shape :: "jsstring \<Rightarrow> bool" where
  "email_shape s = (\<exists>u v w. s = u @ [at_sign] @ v @ [full_stop] @ w
                      \<and> u \<noteq> [] \<and> v \<noteq> [] \<and> w \<noteq> []
                      \<and> list_all plain u \<and> list_all plain v \<and> list_all plain w)"

section \<open>Configuration\<close>

text \<open>The entries of \<^verbatim>\<open>CONFIG\<close> that the theme, toast and form code reads.\<close>

definition storage_theme :: jsstring where
  "storage_theme = js ''devhubx_theme''"

definition storage_newsletterSubscribed :: jsstring where
  "storage_newsletterSubscribed = js ''devhubx_newsletter_subscribed''"

definition api_newsletter :: jsstring where
  "api_newsletter = js ''https://api.devhubx.org/newsletter''"

definition animations_normal :: nat where
  "animations_normal = 300"

definition toast_duration :: nat where
  "toast_duration = 5000"

section \<open>The page\<close>

text \<open>
  The part of the browser state that the theme, toast and newsletter code reads and
  writes.  Elements created by the script are numbered by \<open>next_id\<close>; a callback that
  closes over an element holds its number.  An element taken out of the document stays
  in the store, as it does in the browser while a timer still refers to it.
\<close>

datatype error = TypeError

datatype element = EmailInput

datatype callback =
    ToastShow nat
  | ToastAutoHide nat
  | ToastRemove nat
  | AnnouncementRemove nat
  | ApiSettle jsstring jsstring

datatype console_entry =
    ConsoleError jsstring
  | ConsoleLog jsstring
  | EventTracked jsstring

text \<open>A toast element: its class name is \<^verbatim>\<open>toast <type>\<close>, followed by \<^verbatim>\<open>show\<close> once
  the animation timer has run.  \<open>toast_innerHTML\<close> is the string that \<^verbatim>\<open>showToast\<close>
  assigns to \<^verbatim>\<open>innerHTML\<close>.\<close>

record toast =
  toast_type :: jsstring
  toast_innerHTML :: jsstring
  toast_show :: bool

text \<open>The theme button with its two icons, as \<^verbatim>\<open>createThemeToggle\<close> builds it.\<close>

record toggle =
  aria_pressed :: jsstring
  sun_opacity :: jsstring
  moon_opacity :: jsstring

text \<open>The newsletter form: its e-mail input and its submit button.\<close>

record form =
  email_value :: jsstring
  email_default :: jsstring
  email_placeholder :: jsstring
  email_disabled :: bool
  btn_text :: jsstring
  btn_disabled :: bool
  btn_classes :: "jsstring list"
  btn_busy :: "jsstring option"

record page =
  data_theme :: "jsstring option"
  localStorage :: "jsstring \<rightharpoonup> jsstring"
  theme_toggle :: "toggle option"
  nav_actions :: bool
  nav_container :: bool
  os_listener :: bool
  live_regions :: "(nat \<times> jsstring) list"
  toast_elems :: "nat \<rightharpoonup> toast"
  body_toasts :: "nat list"
  timers :: "(nat \<times> callback) list"
  next_id :: nat
  newsletterForm :: "form option"
  active_element :: "element option"
  console :: "console_entry list"

definition setTimeout :: "callback \<Rightarrow> nat \<Rightarrow> page \<Rightarrow> page" where
  "setTimeout cb delay s = s\<lparr>timers := timers s @ [(delay, cb)]\<rparr>"

definition classList_add :: "jsstring \<Rightarrow> jsstring list \<Rightarrow> jsstring list" where
  "classList_add c cs = (if c \<in> set cs then cs else cs @ [c])"

definition classList_remove :: "jsstring \<Rightarrow> jsstring list \<Rightarrow> jsstring list" where
  "classList_remove c cs = removeAll c cs"

section \<open>Theme management\<close>

text \<open>\<^verbatim>\<open>announceToScreenReader\<close>: a live region is appended to the body and taken out
  again by a timer after 1000 ms.\<close>

definition announceToScreenReader :: "jsstring \<Rightarrow> page \<Rightarrow> page" where
  "announceToScreenReader message s =
     (let a = next_id s;
          s1 = s\<lparr>live_regions := live_regions s @ [(a, message)], next_id := Suc a\<rparr>
      in setTimeout (AnnouncementRemove a) 1000 s1)"

definition bool_string :: "bool \<Rightarrow> jsstring" where
  "bool_string b = (if b then js ''true'' else js ''false'')"

definition updateThemeToggle :: "jsstring option \<Rightarrow> page \<Rightarrow> page" where
  "updateThemeToggle theme s =
     (case theme_toggle s of
        None \<Rightarrow> s
      | Some tg \<Rightarrow>
          s\<lparr>theme_toggle := Some
              (if theme = Some (js ''dark'')
               then tg\<lparr>aria_pressed := bool_string True,
                       sun_opacity := js ''0.5'', moon_opacity := js ''1''\<rparr>
               else tg\<lparr>aria_pressed := bool_string False,
                       sun_opacity := js ''1'', moon_opacity := js ''0.5''\<rparr>)\<rparr>)"

definition setTheme :: "jsstring \<Rightarrow> page \<Rightarrow> page" where
  "setTheme theme s =
     (if theme \<notin> set [js ''light'', js ''dark'']
      then s\<lparr>console := console s @ [ConsoleError (js ''Invalid theme:'')]\<rparr>
      else
        let s1 = s\<lparr>data_theme := Some theme\<rparr>;
            s2 = s1\<lparr>localStorage := (localStorage s1)(storage_theme \<mapsto> theme)\<rparr>;
            s3 = updateThemeToggle (Some theme) s2
        in announceToScreenReader (js ''Theme changed to '' @ theme @ js '' mode'') s3)"

definition toggleTheme :: "page \<Rightarrow> page" where
  "toggleTheme s =
     (let currentTheme = data_theme s;
          newTheme = (if currentTheme = Some (js ''dark'') then js ''light'' else js ''dark'')
      in setTheme newTheme s)"

text \<open>
  \<^verbatim>\<open>createThemeToggle\<close> returns at once when the button exists.  Otherwise it needs the
  \<^verbatim>\<open>.nav-actions\<close> container; \<^verbatim>\<open>createNavActions\<close> builds that inside
  \<^verbatim>\<open>.nav-container\<close> and throws a TypeError on \<^verbatim>\<open>null.appendChild\<close> when the page has
  neither.  Nothing has been attached to the document at that point.
\<close>

definition createNavActions :: "page \<Rightarrow> error + page" where
  "createNavActions s = (if nav_container s then Inr (s\<lparr>nav_actions := True\<rparr>) else Inl TypeError)"

definition createThemeToggle :: "page \<Rightarrow> error + page" where
  "createThemeToggle s =
     (if theme_toggle s \<noteq> None then Inr s
      else
        case (if nav_actions s then Inr s else createNavActions s) of
          Inl e \<Rightarrow> Inl e
        | Inr s1 \<Rightarrow>
            let themeToggle = \<lparr>aria_pressed = js ''false'', sun_opacity = [], moon_opacity = []\<rparr>;
                s2 = s1\<lparr>theme_toggle := Some themeToggle\<rparr>
            in Inr (updateThemeToggle (data_theme s2) s2))"

text \<open>The listener that \<^verbatim>\<open>initTheme\<close> registers for a change of the colour scheme of
  the operating system; \<open>matches\<close> is \<^verbatim>\<open>e.matches\<close>.\<close>

definition on_scheme_change :: "bool \<Rightarrow> page \<Rightarrow> page" where
  "on_scheme_change matches s =
     (if \<not> truthy (localStorage s storage_theme)
      then setTheme (if matches then js ''dark'' else js ''light'') s
      else s)"

text \<open>
  \<^verbatim>\<open>initTheme\<close>; \<open>systemPrefersDark\<close> is what the media query
  \<^verbatim>\<open>(prefers-color-scheme: dark)\<close> reports at load time.  The listener is registered by
  the last statement, so an exception of \<^verbatim>\<open>createThemeToggle\<close> leaves the page without
  it; the result carries that exception.
\<close>

definition initTheme :: "bool \<Rightarrow> page \<Rightarrow> page \<times> error option" where
  "initTheme systemPrefersDark s =
     (let savedTheme = localStorage s storage_theme;
          s1 = (if savedTheme = Some (js ''dark'') \<or> (\<not> truthy savedTheme \<and> systemPrefersDark)
                then setTheme (js ''dark'') s
                else setTheme (js ''light'') s)
      in case createThemeToggle s1 of
           Inl e \<Rightarrow> (s1, Some e)
         | Inr s2 \<Rightarrow> (s2\<lparr>os_listener := True\<rparr>, None))"

section \<open>Toast notifications\<close>

text \<open>
  \<^verbatim>\<open>showToast\<close> builds the content of a toast by assigning a template string with the
  message interpolated to \<^verbatim>\<open>innerHTML\<close>, so the browser parses the message as markup.
  What matters to \<^verbatim>\<open>querySelectorAll('.toast')\<close> is the number of elements in that
  markup whose class list has the token \<^verbatim>\<open>toast\<close>.  \<open>html_toasts\<close> counts them with
  the states of the HTML tokenizer that read a start tag and its attributes: tag and
  attribute names, unquoted and quoted values, the first \<^verbatim>\<open>class\<close> attribute of a tag
  deciding.  End tags, comments and declarations are skipped up to the next \<^verbatim>\<open>>\<close>;
  character references, raw-text elements and the repairs of the tree builder are not
  modelled.
\<close>

definition html_space :: "codeunit \<Rightarrow> bool" where
  "html_space c = (c = 0x09 \<or> c = 0x0A \<or> c = 0x0C \<or> c = 0x0D \<or> c = 0x20)"

definition ascii_alpha :: "codeunit \<Rightarrow> bool" where
  "ascii_alpha c = ((0x41 \<le> c \<and> c \<le> 0x5A) \<or> (0x61 \<le> c \<and> c \<le> 0x7A))"

definition ascii_lower :: "codeunit \<Rightarrow> codeunit" where
  "ascii_lower c = (if 0x41 \<le> c \<and> c \<le> 0x5A then c + 0x20 else c)"

fun class_tokens :: "jsstring \<Rightarrow> jsstring \<Rightarrow> jsstring list" where
  "class_tokens acc [] = (if acc = [] then [] else [acc])"
| "class_tokens acc (c # cs) =
     (if html_space c
      then (if acc = [] then class_tokens [] cs else acc # class_tokens [] cs)
      else class_tokens (acc @ [c]) cs)"

datatype tokenizer =
    Data
  | TagOpen
  | TagName
  | Bogus
  | BeforeAttr
  | AttrName jsstring
  | AfterAttrName jsstring
  | BeforeValue jsstring
  | ValueDQ jsstring jsstring
  | ValueSQ jsstring jsstring
  | ValueUnq jsstring jsstring

type_synonym scan = "tokenizer \<times> bool option \<times> nat"

definition close_attr :: "jsstring \<Rightarrow> jsstring \<Rightarrow> bool option \<Rightarrow> bool option" where
  "close_attr name val cls =
     (if cls = None \<and> name = js ''class''
      then Some (js ''toast'' \<in> set (class_tokens [] val)) else cls)"

definition emit :: "bool option \<Rightarrow> nat \<Rightarrow> scan" where
  "emit cls n = (Data, None, if cls = Some True then Suc n else n)"

fun tok_step :: "codeunit \<Rightarrow> scan \<Rightarrow> scan" where
  "tok_step c (Data, cls, n) = (if c = 0x3C then (TagOpen, None, n) else (Data, None, n))"
| "tok_step c (TagOpen, cls, n) =
     (if ascii_alpha c then (TagName, None, n)
      else if c = 0x2F \<or> c = 0x21 \<or> c = 0x3F then (Bogus, None, n)
      else if c = 0x3C then (TagOpen, None, n)
      else (Data, None, n))"
| "tok_step c (Bogus, cls, n) = (if c = 0x3E then (Data, None, n) else (Bogus, None, n))"
| "tok_step c (TagName, cls, n) =
     (if html_space c \<or> c = 0x2F then (BeforeAttr, cls, n)
      else if c = 0x3E then emit cls n
      else (TagName, cls, n))"
| "tok_step c (BeforeAttr, cls, n) =
     (if html_space c \<or> c = 0x2F then (BeforeAttr, cls, n)
      else if c = 0x3E then emit cls n
      else (AttrName [ascii_lower c], cls, n))"
| "tok_step c (AttrName name, cls, n) =
     (if html_space c then (AfterAttrName name, cls, n)
      else if c = 0x2F then (BeforeAttr, close_attr name [] cls, n)
      else if c = 0x3D then (BeforeValue name, cls, n)
      else if c = 0x3E then emit (close_attr name [] cls) n
      else (AttrName (name @ [ascii_lower c]), cls, n))"
| "tok_step c (AfterAttrName name, cls, n) =
     (if html_space c then (AfterAttrName name, cls, n)
      else if c = 0x2F then (BeforeAttr, close_attr name [] cls, n)
      else if c = 0x3D then (BeforeValue name, cls, n)
      else if c = 0x3E then emit (close_attr name [] cls) n
      else (AttrName [ascii_lower c], close_attr name [] cls, n))"
| "tok_step c (BeforeValue name, cls, n) =
     (if html_space c then (BeforeValue name, cls, n)
      else if c = 0x22 then (ValueDQ name [], cls, n)
      else if c = 0x27 then (ValueSQ name [], cls, n)
      else if c = 0x3E then emit (close_attr name [] cls) n
      else (ValueUnq name [c], cls, n))"
| "tok_step c (ValueDQ name val, cls, n) =
     (if c = 0x22 then (BeforeAttr, close_attr name val cls, n)
      else (ValueDQ name (val @ [c]), cls, n))"
| "tok_step c (ValueSQ name val, cls, n) =
     (if c = 0x27 then (BeforeAttr, close_attr name val cls, n)
      else (ValueSQ name (val @ [c]), cls, n))"
| "tok_step c (ValueUnq name val, cls, n) =
     (if html_space c then (BeforeAttr, close_attr name val cls, n)
      else if c = 0x3E then emit (close_attr name val cls) n
      else (ValueUnq name (val @ [c]), cls, n))"

definition html_toasts :: "jsstring \<Rightarrow> nat" where
  "html_toasts markup = snd (snd (fold tok_step markup (Data, None, 0)))"

text \<open>The template literal of \<^verbatim>\<open>showToast\<close> with the message interpolated.\<close>

definition quoted :: "string \<Rightarrow> jsstring" where
  "quoted v = [0x22] @ js v @ [0x22]"

definition toast_template :: "jsstring \<Rightarrow> jsstring" where
  "toast_template message =
     [0x0A] @ js ''        <div class='' @ quoted ''toast-content'' @ js ''>'' @
     [0x0A] @ js ''            <span class='' @ quoted ''toast-message'' @ js ''>'' @ message
            @ js ''</span>'' @
     [0x0A] @ js ''            <button class='' @ quoted ''toast-close'' @ js '' aria-label=''
            @ quoted ''Close notification'' @ js ''>'' @
     [0x0A] @ js ''                <svg width='' @ quoted ''16'' @ js '' height='' @ quoted ''16''
            @ js '' viewBox='' @ quoted ''0 0 24 24'' @ js '' fill='' @ quoted ''none''
            @ js '' stroke='' @ quoted ''currentColor'' @ js '' stroke-width='' @ quoted ''2''
            @ js ''>'' @
     [0x0A] @ js ''                    <path d='' @ quoted ''M18 6L6 18M6 6l12 12'' @ js ''/>'' @
     [0x0A] @ js ''                </svg>'' @
     [0x0A] @ js ''            </button>'' @
     [0x0A] @ js ''        </div>'' @
     [0x0A] @ js ''    ''"

text \<open>\<^verbatim>\<open>toast.parentNode\<close> is set exactly for the toasts that are in the document.\<close>

definition parentNode :: "nat \<Rightarrow> page \<Rightarrow> bool" where
  "parentNode t s = (t \<in> set (body_toasts s))"

definition removeChild :: "nat \<Rightarrow> page \<Rightarrow> page" where
  "removeChild t s = s\<lparr>body_toasts := removeAll t (body_toasts s)\<rparr>"

text \<open>\<^verbatim>\<open>removeExistingToasts\<close>: the loop over the static result of
  \<^verbatim>\<open>querySelectorAll('.toast')\<close>.  \<open>body_toasts\<close> holds the elements that
  \<^verbatim>\<open>showToast\<close> has appended to the body.  An element of class \<^verbatim>\<open>toast\<close> inside the
  markup of a toast comes after that toast in the result; the loop takes it out of its
  parent inside the toast, which has left the document by then.\<close>

definition removeExistingToasts :: "page \<Rightarrow> page" where
  "removeExistingToasts s =
     fold (\<lambda>t s'. if parentNode t s' then removeChild t s' else s') (body_toasts s) s"

definition set_toast_show :: "nat \<Rightarrow> bool \<Rightarrow> page \<Rightarrow> page" where
  "set_toast_show t b s =
     (case toast_elems s t of
        None \<Rightarrow> s
      | Some el \<Rightarrow> s\<lparr>toast_elems := (toast_elems s)(t \<mapsto> el\<lparr>toast_show := b\<rparr>)\<rparr>)"

definition hideToast :: "nat \<Rightarrow> page \<Rightarrow> page" where
  "hideToast t s = setTimeout (ToastRemove t) animations_normal (set_toast_show t False s)"

text \<open>\<^verbatim>\<open>showToast\<close>; the script's callers pass the type explicitly or rely on the
  default \<^verbatim>\<open>'info'\<close>, which is \<open>showToast_default\<close>.  The new element is the one
  numbered by the old \<open>next_id\<close>.\<close>

definition showToast :: "jsstring \<Rightarrow> jsstring \<Rightarrow> page \<Rightarrow> page" where
  "showToast message type s =
     (let s1 = removeExistingToasts s;
          t = next_id s1;
          s2 = s1\<lparr>toast_elems := (toast_elems s1)
                    (t \<mapsto> \<lparr>toast_type = type, toast_innerHTML = toast_template message,
                           toast_show = False\<rparr>),
                  next_id := Suc t\<rparr>;
          s3 = s2\<lparr>body_toasts := body_toasts s2 @ [t]\<rparr>;
          s4 = setTimeout (ToastShow t) 10 s3
      in setTimeout (ToastAutoHide t) toast_duration s4)"

definition showToast_default :: "jsstring \<Rightarrow> page \<Rightarrow> page" where
  "showToast_default message s = showToast message (js ''info'') s"

section \<open>The simulated remote call\<close>

datatype api_result = Resolved bool jsstring | Rejected jsstring

text \<open>
  \<^verbatim>\<open>simulateAPICall\<close> only arms a timer of 1500 ms; the promise is settled by the
  callback of that timer.  \<open>r\<close> is the value that \<^verbatim>\<open>Math.random()\<close> returns inside the
  callback, taken as a real number.  A resolved promise carries
  \<^verbatim>\<open>{success: true, data: data}\<close>; of the data object of the newsletter call only the
  \<^verbatim>\<open>email\<close> field is kept, its time stamp is read by nothing.
\<close>

definition api_delay :: nat where
  "api_delay = 1500"

definition simulateAPICall :: "jsstring \<Rightarrow> jsstring \<Rightarrow> page \<Rightarrow> page" where
  "simulateAPICall endpoint data s = setTimeout (ApiSettle endpoint data) api_delay s"

definition api_settle :: "real \<Rightarrow> jsstring \<Rightarrow> jsstring \<Rightarrow> api_result" where
  "api_settle r endpoint data =
     (let isSuccess = (r > 0.1)
      in if isSuccess then Resolved True data else Rejected (js ''API request failed''))"

section \<open>The newsletter form\<close>

definition map_form :: "(form \<Rightarrow> form) \<Rightarrow> page \<Rightarrow> page" where
  "map_form f s = s\<lparr>newsletterForm := map_option f (newsletterForm s)\<rparr>"

definition setButtonLoading :: "bool \<Rightarrow> form \<Rightarrow> form" where
  "setButtonLoading isLoading f =
     (if isLoading
      then f\<lparr>btn_classes := classList_add (js ''btn-loading'') (btn_classes f),
             btn_disabled := True, btn_busy := Some (js ''true'')\<rparr>
      else f\<lparr>btn_classes := classList_remove (js ''btn-loading'') (btn_classes f),
             btn_disabled := False, btn_busy := None\<rparr>)"

definition subscribed_text :: jsstring where
  "subscribed_text = js ''Subscribed '' @ [0x2713]"

definition updateNewsletterFormState :: "bool \<Rightarrow> page \<Rightarrow> page" where
  "updateNewsletterFormState isSubscribed s =
     (case newsletterForm s of
        None \<Rightarrow> s
      | Some f \<Rightarrow>
          if isSubscribed
          then s\<lparr>newsletterForm := Some
                 (f\<lparr>email_value := [],
                    email_placeholder := js ''You are already subscribed!'',
                    email_disabled := True,
                    btn_text := subscribed_text,
                    btn_disabled := True,
                    btn_classes := classList_add (js ''success'')
                      (classList_add (js ''btn-outline'')
                        (classList_remove (js ''btn-primary'') (btn_classes f)))\<rparr>)\<rparr>
          else s)"

definition form_reset :: "form \<Rightarrow> form" where
  "form_reset f = f\<lparr>email_value := email_default f\<rparr>"

definition trackEvent :: "jsstring \<Rightarrow> page \<Rightarrow> page" where
  "trackEvent eventName s = s\<lparr>console := console s @ [EventTracked eventName]\<rparr>"

text \<open>\<^verbatim>\<open>initForms\<close>, the newsletter part: the submit handler is registered and a truthy
  subscribed flag disables the form.\<close>

definition initForms :: "page \<Rightarrow> page" where
  "initForms s =
     (case newsletterForm s of
        None \<Rightarrow> s
      | Some f \<Rightarrow>
          let isSubscribed = localStorage s storage_newsletterSubscribed
          in if truthy isSubscribed then updateNewsletterFormState True s else s)"

text \<open>
  \<^verbatim>\<open>handleNewsletterSubmit\<close> runs in two turns of the event loop.  The first turn ends at
  the \<^verbatim>\<open>await\<close>, or earlier at the \<^verbatim>\<open>return\<close> of the validation.  The second turn is
  the rest of the \<^verbatim>\<open>try\<close> statement, run when the promise is settled: the success path
  on \<open>Resolved\<close>, the \<^verbatim>\<open>catch\<close> block on \<open>Rejected\<close> and on an exception of the
  success path, and the \<^verbatim>\<open>finally\<close> block after either.  A submit event needs the form, which is the element with the id
  \<^verbatim>\<open>newsletterForm\<close> since \<^verbatim>\<open>initForms\<close> registers the handler on no other.
\<close>

definition handleNewsletterSubmit :: "page \<Rightarrow> page" where
  "handleNewsletterSubmit s =
     (case newsletterForm s of
        None \<Rightarrow> s
      | Some f \<Rightarrow>
          let email = trim (email_value f)
          in if \<not> isValidEmail email
             then (showToast (js ''Please enter a valid email address'') (js ''error'') s)
                    \<lparr>active_element := Some EmailInput\<rparr>
             else simulateAPICall api_newsletter email (map_form (setButtonLoading True) s))"

text \<open>
  The \<^verbatim>\<open>try\<close> block after the \<^verbatim>\<open>await\<close>.  A rejected promise throws at the
  \<^verbatim>\<open>await\<close>.  On the success path \<^verbatim>\<open>localStorage.setItem\<close> throws when the browser
  refuses the write (the quota is used up); \<open>setItem_throws\<close> says whether it does, and
  the toast shown before stays created.  \<open>Inl\<close> carries the page at the throw.
\<close>

definition newsletter_try :: "api_result \<Rightarrow> bool \<Rightarrow> page \<Rightarrow> page + page" where
  "newsletter_try res setItem_throws s =
     (case res of
        Rejected err \<Rightarrow> Inl s
      | Resolved ok dat \<Rightarrow>
          let s1 = showToast (js ''Successfully subscribed to newsletter!'') (js ''success'') s
          in if setItem_throws then Inl s1
             else
               let s2 = s1\<lparr>localStorage :=
                          (localStorage s1)(storage_newsletterSubscribed \<mapsto> js ''true'')\<rparr>;
                   s3 = updateNewsletterFormState True s2;
                   s4 = map_form form_reset s3
               in Inr (trackEvent (js ''newsletter_subscription'') s4))"

definition newsletter_catch :: "page \<Rightarrow> page" where
  "newsletter_catch s =
     (let s1 = s\<lparr>console := console s @
                  [ConsoleError (js ''Newsletter subscription failed:'')]\<rparr>
      in showToast (js ''Subscription failed. Please try again.'') (js ''error'') s1)"

definition newsletter_settled :: "api_result \<Rightarrow> bool \<Rightarrow> jsstring \<Rightarrow> page \<Rightarrow> page" where
  "newsletter_settled res setItem_throws email s =
     (let s' = (case newsletter_try res setItem_throws s of
                  Inl s1 \<Rightarrow> newsletter_catch s1
                | Inr s1 \<Rightarrow> s1)
      in map_form (setButtonLoading False) s')"

section \<open>Timers and events\<close>

text \<open>What a timer callback does when it runs.  \<open>r\<close> is the random number drawn by the
  callback of the simulated call, and \<open>x\<close> says whether the write of the subscribed flag
  throws in the handler that the settled promise resumes; the other callbacks read
  neither.\<close>

fun run_callback :: "real \<Rightarrow> bool \<Rightarrow> callback \<Rightarrow> page \<Rightarrow> page" where
  "run_callback r x (ToastShow t) s = set_toast_show t True s"
| "run_callback r x (ToastAutoHide t) s = (if parentNode t s then hideToast t s else s)"
| "run_callback r x (ToastRemove t) s = (if parentNode t s then removeChild t s else s)"
| "run_callback r x (AnnouncementRemove a) s =
     (if a \<in> fst ` set (live_regions s)
      then s\<lparr>live_regions := filter (\<lambda>p. fst p \<noteq> a) (live_regions s)\<rparr> else s)"
| "run_callback r x (ApiSettle endpoint email) s =
     (let res = api_settle r endpoint email;
          s1 = (case res of
                  Resolved ok dat \<Rightarrow>
                    s\<lparr>console := console s @ [ConsoleLog (js ''API call to '' @ endpoint @ js '':'')]\<rparr>
                | Rejected err \<Rightarrow> s)
      in newsletter_settled res x email s1)"

text \<open>
  The events of the page.  \<open>TimerFires i r x\<close> runs the \<open>i\<close>-th pending timer, whatever
  its delay, so every order in which the browser can run the timers is covered.
\<close>

datatype event =
    ShowToast jsstring jsstring
  | CloseClick nat
  | TimerFires nat real bool
  | ToggleClick
  | SchemeChange bool
  | NewsletterSubmit

fun step :: "page \<Rightarrow> event \<Rightarrow> page" where
  "step s (ShowToast message type) = showToast message type s"
| "step s (CloseClick t) = (if t \<in> dom (toast_elems s) then hideToast t s else s)"
| "step s (TimerFires i r x) =
     (if i < length (timers s)
      then run_callback r x (snd (timers s ! i))
             (s\<lparr>timers := take i (timers s) @ drop (Suc i) (timers s)\<rparr>)
      else s)"
| "step s ToggleClick = toggleTheme s"
| "step s (SchemeChange matches) = (if os_listener s then on_scheme_change matches s else s)"
| "step s NewsletterSubmit = handleNewsletterSubmit s"

definition run :: "page \<Rightarrow> event list \<Rightarrow> page" where
  "run s evs = foldl step s evs"

text \<open>The number of elements of the document that \<^verbatim>\<open>querySelectorAll('.toast')\<close> finds:
  every toast in the body, and with it the elements of class \<^verbatim>\<open>toast\<close> in its markup.\<close>

definition toast_elements :: "page \<Rightarrow> nat \<Rightarrow> nat" where
  "toast_elements s t =
     (case toast_elems s t of
        None \<Rightarrow> 1
      | Some el \<Rightarrow> 1 + html_toasts (toast_innerHTML el))"

definition toast_count :: "page \<Rightarrow> nat" where
  "toast_count s = sum_list (map (toast_elements s) (body_toasts s))"

text \<open>An example of a page before the script has run: no stored values, no toasts, no
  timers, a navigation bar and an empty newsletter form.\<close>

definition fresh_form :: form where
  "fresh_form = \<lparr>email_value = [], email_default = [], email_placeholder = js ''Enter your email'',
                 email_disabled = False, btn_text = js ''Subscribe'', btn_disabled = False,
                 btn_classes = [js ''btn'', js ''btn-primary''], btn_busy = None\<rparr>"

definition fresh_page :: page where
  "fresh_page = \<lparr>data_theme = None, localStorage = Map.empty, theme_toggle = None,
                 nav_actions = False, nav_container = True, os_listener = False,
                 live_regions = [], toast_elems = Map.empty, body_toasts = [], timers = [],
                 next_id = 0, newsletterForm = Some fresh_form, active_element = None,
                 console = []\<rparr>"

section \<open>Outcomes of a newsletter submission\<close>

text \<open>
  The two outcomes of a submission, as relations between the page before the submit event
  and the page after the promise is settled.  In both the document holds one toast, the
  toast of that outcome; the success outcome has the subscribed flag stored, the failure
  outcome has the storage as it was.
\<close>

definition success_toast :: toast where
  "success_toast = \<lparr>toast_type = js ''success'',
                     toast_innerHTML = toast_template (js ''Successfully subscribed to newsletter!''),
                     toast_show = False\<rparr>"

definition failure_toast :: toast where
  "failure_toast = \<lparr>toast_type = js ''error'',
                     toast_innerHTML = toast_template (js ''Subscription failed. Please try again.''),
                     toast_show = False\<rparr>"

definition validation_toast :: toast where
  "validation_toast = \<lparr>toast_type = js ''error'',
                        toast_innerHTML = toast_template (js ''Please enter a valid email address''),
                        toast_show = False\<rparr>"

definition shown_toasts :: "page \<Rightarrow> toast option list" where
  "shown_toasts s = map (toast_elems s) (body_toasts s)"

definition newsletter_succeeded :: "page \<Rightarrow> page \<Rightarrow> bool" where
  "newsletter_succeeded s s' =
     (shown_toasts s' = [Some success_toast]
      \<and> localStorage s' = (localStorage s)(storage_newsletterSubscribed \<mapsto> js ''true''))"

definition newsletter_failed :: "page \<Rightarrow> page \<Rightarrow> bool" where
  "newsletter_failed s s' =
     (shown_toasts s' = [Some failure_toast]
      \<and> localStorage s' = localStorage s)"

text \<open>
  The values of the subscribed flag that the script leaves in the storage: the key is
  absent until \<^verbatim>\<open>handleNewsletterSubmit\<close> writes \<^verbatim>\<open>'true'\<close>, the only write to it, and
  nothing removes it.
\<close>

definition flag_as_written :: "page \<Rightarrow> bool" where
  "flag_as_written s =
     (localStorage s storage_newsletterSubscribed = None
      \<or> localStorage s storage_newsletterSubscribed = Some (js ''true''))"

text \<open>The newsletter form is rendered disabled: input and button are disabled and the
  input shows the placeholder of a subscriber.\<close>

definition rendered_subscribed :: "page \<Rightarrow> bool" where
  "rendered_subscribed s =
     (case newsletterForm s of
        None \<Rightarrow> False
      | Some f \<Rightarrow> email_disabled f \<and> btn_disabled f
                  \<and> email_placeholder f = js ''You are already subscribed!'')"

text \<open>Example pages: the fresh page with a given text typed into the newsletter input,
  and the fresh page with given stored values.\<close>

definition page_with_email :: "jsstring \<Rightarrow> page" where
  "page_with_email v = fresh_page\<lparr>newsletterForm := Some (fresh_form\<lparr>email_value := v\<rparr>)\<rparr>"

definition page_with_storage :: "(jsstring \<rightharpoonup> jsstring) \<Rightarrow> page" where
  "page_with_storage m = fresh_page\<lparr>localStorage := m\<rparr>"

section \<open>Properties of the regular expression\<close>

lemma test_One_iff:
  "test (One a # ps) s = (\<exists>c cs. s = c # cs \<and> atom_has a c \<and> test ps cs)"
  by (cases s) simp_all

lemma test_Plus_iff:
  "test (Plus a # ps) s =
     (\<exists>u t. s = u @ t \<and> u \<noteq> [] \<and> list_all (atom_has a) u \<and> test ps t)"
proof (induction s)
  case Nil
  then show ?case by simp
next
  case (Cons c cs)
  show ?case
  proof
    assume "test (Plus a # ps) (c # cs)"
    then have hc: "atom_has a c" and alt: "test (Plus a # ps) cs \<or> test ps cs"
      by simp_all
    from alt show "\<exists>u t. c # cs = u @ t \<and> u \<noteq> [] \<and> list_all (atom_has a) u \<and> test ps t"
    proof
      assume "test (Plus a # ps) cs"
      with Cons.IH obtain u t where "cs = u @ t" "list_all (atom_has a) u" "test ps t"
        by blast
      with hc have "c # cs = (c # u) @ t \<and> c # u \<noteq> [] \<and> list_all (atom_has a) (c # u) \<and> test ps t"
        by simp
      then show ?thesis by blast
    next
      assume "test ps cs"
      with hc have "c # cs = [c] @ cs \<and> [c] \<noteq> [] \<and> list_all (atom_has a) [c] \<and> test ps cs"
        by simp
      then show ?thesis by blast
    qed
  next
    assume "\<exists>u t. c # cs = u @ t \<and> u \<noteq> [] \<and> list_all (atom_has a) u \<and> test ps t"
    then obtain u t where ut: "c # cs = u @ t" "u \<noteq> []" "list_all (atom_has a) u" "test ps t"
      by blast
    then obtain u' where u: "u = c # u'" and cs: "cs = u' @ t"
      by (cases u) auto
    show "test (Plus a # ps) (c # cs)"
    proof (cases "u' = []")
      case True
      with ut u cs show ?thesis by simp
    next
      case False
      with ut u cs have "test (Plus a # ps) cs"
        using Cons.IH by auto
      with ut u show ?thesis by simp
    qed
  qed
qed

lemma atom_has_not_space_at: "atom_has not_space_at = plain"
  by (rule ext) (simp add: not_space_at_def plain_def)

lemma isValidEmail_unfold: "isValidEmail s =
   (\<exists>u t. s = u @ t \<and> u \<noteq> [] \<and> list_all plain u \<and>
     (\<exists>cs. t = at_sign # cs \<and>
        (\<exists>v t2. cs = v @ t2 \<and> v \<noteq> [] \<and> list_all plain v \<and>
           (\<exists>ds. t2 = full_stop # ds \<and> ds \<noteq> [] \<and> list_all plain ds))))"
  unfolding isValidEmail_def emailRegex_def
  by (simp add: test_Plus_iff test_One_iff atom_has_not_space_at)

lemma isValidEmail_iff_shape: "isValidEmail s = email_shape s"
proof
  assume "isValidEmail s"
  then obtain u v w where "s = u @ at_sign # v @ full_stop # w" "u \<noteq> []" "v \<noteq> []" "w \<noteq> []"
    "list_all plain u" "list_all plain v" "list_all plain w"
    unfolding isValidEmail_unfold by blast
  then show "email_shape s" unfolding email_shape_def by auto
next
  assume "email_shape s"
  then obtain u v w where "s = u @ at_sign # v @ full_stop # w" "u \<noteq> []" "v \<noteq> []" "w \<noteq> []"
    "list_all plain u" "list_all plain v" "list_all plain w"
    unfolding email_shape_def by auto
  then show "isValidEmail s" unfolding isValidEmail_unfold by blast
qed

section \<open>Properties of the theme functions\<close>

lemma light_neq_dark: "js ''light'' \<noteq> js ''dark''" "js ''dark'' \<noteq> js ''light''"
  by (simp_all add: js_def)

lemma theme_nonempty: "js ''light'' \<noteq> []" "js ''dark'' \<noteq> []"
  by (simp_all add: js_def)

lemma storage_keys_distinct:
  "storage_theme \<noteq> storage_newsletterSubscribed" "storage_newsletterSubscribed \<noteq> storage_theme"
  by (simp_all add: storage_theme_def storage_newsletterSubscribed_def js_def)

lemma announce_fields [simp]:
  "data_theme (announceToScreenReader m s) = data_theme s"
  "localStorage (announceToScreenReader m s) = localStorage s"
  "body_toasts (announceToScreenReader m s) = body_toasts s"
  "theme_toggle (announceToScreenReader m s) = theme_toggle s"
  "nav_actions (announceToScreenReader m s) = nav_actions s"
  "nav_container (announceToScreenReader m s) = nav_container s"
  "os_listener (announceToScreenReader m s) = os_listener s"
  "newsletterForm (announceToScreenReader m s) = newsletterForm s"
  by (simp_all add: announceToScreenReader_def setTimeout_def Let_def)

lemma updateThemeToggle_fields [simp]:
  "data_theme (updateThemeToggle t s) = data_theme s"
  "localStorage (updateThemeToggle t s) = localStorage s"
  "body_toasts (updateThemeToggle t s) = body_toasts s"
  "nav_actions (updateThemeToggle t s) = nav_actions s"
  "nav_container (updateThemeToggle t s) = nav_container s"
  "os_listener (updateThemeToggle t s) = os_listener s"
  "newsletterForm (updateThemeToggle t s) = newsletterForm s"
  by (simp_all add: updateThemeToggle_def split: option.splits)

lemma setTheme_valid:
  assumes "theme = js ''light'' \<or> theme = js ''dark''"
  shows "data_theme (setTheme theme s) = Some theme"
    and "localStorage (setTheme theme s) = (localStorage s)(storage_theme \<mapsto> theme)"
    and "body_toasts (setTheme theme s) = body_toasts s"
    and "newsletterForm (setTheme theme s) = newsletterForm s"
    and "os_listener (setTheme theme s) = os_listener s"
  using assms by (auto simp: setTheme_def Let_def)

lemma setTheme_body_toasts [simp]: "body_toasts (setTheme theme s) = body_toasts s"
  by (simp add: setTheme_def Let_def)

lemma createThemeToggle_fields:
  assumes "createThemeToggle s = Inr s'"
  shows "data_theme s' = data_theme s" and "localStorage s' = localStorage s"
    and "body_toasts s' = body_toasts s"
  using assms
  by (auto simp: createThemeToggle_def createNavActions_def Let_def split: if_splits sum.splits)

lemma after_createThemeToggle:
  "data_theme (fst (case createThemeToggle s1 of
       Inl e \<Rightarrow> (s1, Some e) | Inr s2 \<Rightarrow> (s2\<lparr>os_listener := True\<rparr>, None))) = data_theme s1"
  "localStorage (fst (case createThemeToggle s1 of
       Inl e \<Rightarrow> (s1, Some e) | Inr s2 \<Rightarrow> (s2\<lparr>os_listener := True\<rparr>, None))) = localStorage s1"
  by (cases "createThemeToggle s1"; simp add: createThemeToggle_fields)+

lemma initTheme_data_theme:
  "data_theme (fst (initTheme d s)) =
     Some (if localStorage s storage_theme = Some (js ''dark'')
              \<or> (\<not> truthy (localStorage s storage_theme) \<and> d)
           then js ''dark'' else js ''light'')"
  by (simp add: initTheme_def Let_def after_createThemeToggle setTheme_valid)

lemma initTheme_storage:
  "localStorage (fst (initTheme d s)) storage_theme = data_theme (fst (initTheme d s))"
  by (simp add: initTheme_def Let_def after_createThemeToggle setTheme_valid)



lemma listener_dead_after_init:
  "on_scheme_change m (fst (initTheme d s)) = fst (initTheme d s)"
  by (simp add: on_scheme_change_def initTheme_storage initTheme_data_theme truthy_def theme_nonempty)


section \<open>Properties of the toast functions\<close>

lemma fold_removeChild_set:
  "set (body_toasts (fold (\<lambda>t s'. if parentNode t s' then removeChild t s' else s') ts s))
     = set (body_toasts s) - set ts"
  by (induction ts arbitrary: s) (auto simp: parentNode_def removeChild_def)

lemma fold_removeChild_other:
  "toast_elems (fold (\<lambda>t s'. if parentNode t s' then removeChild t s' else s') ts s) = toast_elems s"
  "timers (fold (\<lambda>t s'. if parentNode t s' then removeChild t s' else s') ts s) = timers s"
  "next_id (fold (\<lambda>t s'. if parentNode t s' then removeChild t s' else s') ts s) = next_id s"
  "localStorage (fold (\<lambda>t s'. if parentNode t s' then removeChild t s' else s') ts s) = localStorage s"
  "newsletterForm (fold (\<lambda>t s'. if parentNode t s' then removeChild t s' else s') ts s) = newsletterForm s"
  "data_theme (fold (\<lambda>t s'. if parentNode t s' then removeChild t s' else s') ts s) = data_theme s"
  "console (fold (\<lambda>t s'. if parentNode t s' then removeChild t s' else s') ts s) = console s"
  by (induction ts arbitrary: s; simp add: removeChild_def)+

lemma removeExistingToasts_fields [simp]:
  "body_toasts (removeExistingToasts s) = []"
  "toast_elems (removeExistingToasts s) = toast_elems s"
  "timers (removeExistingToasts s) = timers s"
  "next_id (removeExistingToasts s) = next_id s"
  "localStorage (removeExistingToasts s) = localStorage s"
  "newsletterForm (removeExistingToasts s) = newsletterForm s"
  "data_theme (removeExistingToasts s) = data_theme s"
  "console (removeExistingToasts s) = console s"
proof -
  have "set (body_toasts (removeExistingToasts s)) = {}"
    by (simp add: removeExistingToasts_def fold_removeChild_set)
  then show "body_toasts (removeExistingToasts s) = []" by simp
qed (simp_all add: removeExistingToasts_def fold_removeChild_other)

lemma showToast_fields:
  "body_toasts (showToast m k s) = [next_id s]"
  "toast_elems (showToast m k s) =
     (toast_elems s)(next_id s \<mapsto>
        \<lparr>toast_type = k, toast_innerHTML = toast_template m, toast_show = False\<rparr>)"
  "timers (showToast m k s) =
     timers s @ [(10, ToastShow (next_id s)), (toast_duration, ToastAutoHide (next_id s))]"
  "next_id (showToast m k s) = Suc (next_id s)"
  "localStorage (showToast m k s) = localStorage s"
  "newsletterForm (showToast m k s) = newsletterForm s"
  "data_theme (showToast m k s) = data_theme s"
  "console (showToast m k s) = console s"
  by (simp_all add: showToast_def Let_def setTimeout_def)

lemma hideToast_body [simp]: "body_toasts (hideToast t s) = body_toasts s"
  by (simp add: hideToast_def setTimeout_def set_toast_show_def split: option.splits)

lemma set_toast_show_body [simp]: "body_toasts (set_toast_show t b s) = body_toasts s"
  by (simp add: set_toast_show_def split: option.splits)

lemma map_form_body [simp]: "body_toasts (map_form f s) = body_toasts s"
  by (simp add: map_form_def)

lemma updateNewsletterFormState_body [simp]:
  "body_toasts (updateNewsletterFormState b s) = body_toasts s"
  by (simp add: updateNewsletterFormState_def split: option.splits)

lemma newsletter_settled_body: "length (body_toasts (newsletter_settled res x e s)) = 1"
  by (cases res; cases x)
     (simp_all add: newsletter_settled_def newsletter_try_def newsletter_catch_def Let_def
        trackEvent_def showToast_fields)

text \<open>At most one of the toasts that \<open>showToast\<close> has appended is in the body, through
  every sequence of events.\<close>

lemma run_callback_appended:
  assumes h: "length (body_toasts s) \<le> 1"
  shows "length (body_toasts (run_callback r x cb s)) \<le> 1"
proof (cases cb)
  case (ToastRemove t)
  have "length (removeAll t (body_toasts s)) \<le> length (body_toasts s)"
    by (simp add: removeAll_filter_not_eq)
  with h have "length (removeAll t (body_toasts s)) \<le> 1"
    by linarith
  with h ToastRemove show ?thesis
    by (simp add: removeChild_def)
next
  case (ApiSettle endpoint email)
  then show ?thesis by (simp add: Let_def newsletter_settled_body)
qed (use h in simp_all)

lemma handleNewsletterSubmit_appended:
  "length (body_toasts s) \<le> 1 \<Longrightarrow> length (body_toasts (handleNewsletterSubmit s)) \<le> 1"
  by (simp add: handleNewsletterSubmit_def Let_def showToast_fields
        simulateAPICall_def setTimeout_def split: option.splits)

lemma step_appended:
  assumes h: "length (body_toasts s) \<le> 1"
  shows "length (body_toasts (step s ev)) \<le> 1"
proof (cases ev)
  case (TimerFires i r x)
  have "length (body_toasts (s\<lparr>timers := take i (timers s) @ drop (Suc i) (timers s)\<rparr>)) \<le> 1"
    using h by simp
  then have "length (body_toasts (run_callback r x (snd (timers s ! i))
               (s\<lparr>timers := take i (timers s) @ drop (Suc i) (timers s)\<rparr>))) \<le> 1"
    by (rule run_callback_appended)
  with h TimerFires show ?thesis by simp
next
  case NewsletterSubmit
  with handleNewsletterSubmit_appended [OF h] show ?thesis by simp
qed (use h in \<open>simp_all add: showToast_fields toggleTheme_def Let_def on_scheme_change_def\<close>)

lemma run_appended:
  "length (body_toasts s) \<le> 1 \<Longrightarrow> length (body_toasts (run s evs)) \<le> 1"
  unfolding run_def
proof (induction evs arbitrary: s)
  case Nil
  then show ?case by simp
next
  case (Cons ev evs)
  from Cons.prems have "length (body_toasts (step s ev)) \<le> 1" by (rule step_appended)
  then have "length (body_toasts (foldl step (step s ev) evs)) \<le> 1" by (rule Cons.IH)
  then show ?case by simp
qed

lemma showToast_count:
  "toast_count (showToast m k s) = 1 + html_toasts (toast_template m)"
  by (simp add: toast_count_def toast_elements_def showToast_fields)

section \<open>Properties of the newsletter form\<close>

lemma handleNewsletterSubmit_invalid:
  assumes "newsletterForm s = Some f" and "\<not> isValidEmail (trim (email_value f))"
  shows "handleNewsletterSubmit s =
           (showToast (js ''Please enter a valid email address'') (js ''error'') s)
             \<lparr>active_element := Some EmailInput\<rparr>"
  using assms by (simp add: handleNewsletterSubmit_def)

lemma handleNewsletterSubmit_valid:
  assumes "newsletterForm s = Some f" and "isValidEmail (trim (email_value f))"
  shows "handleNewsletterSubmit s =
           (s\<lparr>newsletterForm := Some (setButtonLoading True f)\<rparr>)
             \<lparr>timers := timers s @ [(api_delay, ApiSettle api_newsletter (trim (email_value f)))]\<rparr>"
  using assms
  by (simp add: handleNewsletterSubmit_def simulateAPICall_def setTimeout_def map_form_def)

lemma toasts_differ: "success_toast \<noteq> failure_toast"
  by (simp add: success_toast_def failure_toast_def js_def)

lemma newsletter_settled_shown:
  "shown_toasts (newsletter_settled (Resolved ok d) False e s) = [Some success_toast]"
  "shown_toasts (newsletter_settled (Resolved ok d) True e s) = [Some failure_toast]"
  "shown_toasts (newsletter_settled (Rejected err) x e s) = [Some failure_toast]"
  "next_id s = n
     \<Longrightarrow> toast_elems (newsletter_settled (Resolved ok d) True e s) n = Some success_toast"
  by (simp_all add: newsletter_settled_def newsletter_try_def newsletter_catch_def Let_def
        trackEvent_def showToast_fields map_form_def updateNewsletterFormState_def
        shown_toasts_def success_toast_def failure_toast_def split: option.splits)

lemma newsletter_settled_storage:
  "localStorage (newsletter_settled (Resolved ok d) False e s) =
      (localStorage s)(storage_newsletterSubscribed \<mapsto> js ''true'')"
  "localStorage (newsletter_settled (Resolved ok d) True e s) = localStorage s"
  "localStorage (newsletter_settled (Rejected err) x e s) = localStorage s"
  by (simp_all add: newsletter_settled_def newsletter_try_def newsletter_catch_def Let_def
        trackEvent_def showToast_fields map_form_def updateNewsletterFormState_def
        split: option.splits)

lemma newsletter_settled_other_key:
  "k \<noteq> storage_newsletterSubscribed
     \<Longrightarrow> localStorage (newsletter_settled res x e s) k = localStorage s k"
  by (cases res; cases x) (simp_all add: newsletter_settled_storage)

lemma newsletter_settled_flag:
  "flag_as_written s \<Longrightarrow> flag_as_written (newsletter_settled res x e s)"
  by (cases res; cases x) (simp_all add: newsletter_settled_storage flag_as_written_def)

lemma settle_outcome:
  "(r > 0.1 \<and> \<not> x \<and> newsletter_succeeded s (run_callback r x (ApiSettle ep e) s)
        \<and> \<not> newsletter_failed s (run_callback r x (ApiSettle ep e) s))
   \<or> ((\<not> r > 0.1 \<or> x) \<and> newsletter_failed s (run_callback r x (ApiSettle ep e) s)
        \<and> \<not> newsletter_succeeded s (run_callback r x (ApiSettle ep e) s))"
  by (cases x)
     (simp_all add: api_settle_def Let_def newsletter_succeeded_def newsletter_failed_def
        newsletter_settled_shown newsletter_settled_storage toasts_differ
        toasts_differ [symmetric])

lemma two_turns:
  assumes "newsletterForm s = Some f" and "isValidEmail (trim (email_value f))"
  shows "run s [NewsletterSubmit, TimerFires (length (timers s)) r x] =
         run_callback r x (ApiSettle api_newsletter (trim (email_value f)))
           (s\<lparr>newsletterForm := Some (setButtonLoading True f)\<rparr>)"
  by (simp add: run_def handleNewsletterSubmit_valid [OF assms])

lemma initForms_truthy:
  assumes "newsletterForm s = Some f" and "truthy (localStorage s storage_newsletterSubscribed)"
  shows "rendered_subscribed (initForms s)"
  using assms
  by (simp add: initForms_def rendered_subscribed_def updateNewsletterFormState_def)

section \<open>Further helper lemmas\<close>

lemma scheme_change_after_choice:
  "truthy (localStorage s storage_theme) \<Longrightarrow> on_scheme_change m s = s"
  by (simp add: on_scheme_change_def)

lemma setTheme_storage:
  "localStorage (setTheme t s) storage_theme =
     (if t = js ''light'' \<or> t = js ''dark'' then Some t else localStorage s storage_theme)"
  by (simp add: setTheme_def Let_def)

lemma run_callback_keeps_key:
  "localStorage s storage_theme \<noteq> None
     \<Longrightarrow> localStorage (run_callback r x cb s) storage_theme \<noteq> None"
proof (cases cb)
  case (ApiSettle ep e)
  assume "localStorage s storage_theme \<noteq> None"
  with ApiSettle show ?thesis
    by (cases "api_settle r ep e")
       (simp_all add: Let_def newsletter_settled_other_key storage_keys_distinct)
qed (simp_all add: hideToast_def setTimeout_def set_toast_show_def removeChild_def
       split: option.splits)

lemma step_keeps_key:
  assumes "localStorage s storage_theme \<noteq> None"
  shows "localStorage (step s ev) storage_theme \<noteq> None"
proof (cases ev)
  case (TimerFires i r x)
  have "localStorage (s\<lparr>timers := take i (timers s) @ drop (Suc i) (timers s)\<rparr>) storage_theme
          \<noteq> None"
    using assms by simp
  then have "localStorage (run_callback r x (snd (timers s ! i))
        (s\<lparr>timers := take i (timers s) @ drop (Suc i) (timers s)\<rparr>)) storage_theme \<noteq> None"
    by (rule run_callback_keeps_key)
  with assms TimerFires show ?thesis by simp
next
  case NewsletterSubmit
  with assms show ?thesis
    by (simp add: handleNewsletterSubmit_def Let_def showToast_fields simulateAPICall_def
          setTimeout_def map_form_def split: option.splits)
qed (use assms in \<open>simp_all add: showToast_fields hideToast_def setTimeout_def
       set_toast_show_def toggleTheme_def Let_def on_scheme_change_def setTheme_storage
       split: option.splits\<close>)

lemma theme_key_never_deleted:
  "localStorage s storage_theme \<noteq> None \<Longrightarrow> localStorage (run s evs) storage_theme \<noteq> None"
  unfolding run_def
proof (induction evs arbitrary: s)
  case Nil
  then show ?case by simp
next
  case (Cons ev evs)
  from Cons.prems have "localStorage (step s ev) storage_theme \<noteq> None"
    by (rule step_keeps_key)
  then have "localStorage (foldl step (step s ev) evs) storage_theme \<noteq> None"
    by (rule Cons.IH)
  then show ?case by simp
qed

lemma shape_no_space:
  assumes "email_shape s" and "c \<in> set s"
  shows "\<not> is_space c"
proof -
  from assms(1) obtain u v w where s: "s = u @ [at_sign] @ v @ [full_stop] @ w"
    and p: "list_all plain u" "list_all plain v" "list_all plain w"
    unfolding email_shape_def by blast
  have "\<not> is_space at_sign" "\<not> is_space full_stop"
    by (simp_all add: is_space_def at_sign_def full_stop_def)
  with assms(2) s p show ?thesis
    by (auto simp: list_all_iff plain_def)
qed

lemma outcome_relative:
  assumes "localStorage s1 = localStorage s"
  shows "newsletter_succeeded s s' = newsletter_succeeded s1 s'"
    and "newsletter_failed s s' = newsletter_failed s1 s'"
  using assms by (simp_all add: newsletter_succeeded_def newsletter_failed_def)

lemma not_an_email: "\<not> isValidEmail (trim (js ''not-an-email''))"
  by (simp add: isValidEmail_def emailRegex_def js_def not_space_at_def at_sign_def
        full_stop_def is_space_def trim_def)

lemma user_example_valid: "isValidEmail (trim (js ''user@example.com''))"
  by (simp add: isValidEmail_def emailRegex_def js_def not_space_at_def at_sign_def
        full_stop_def is_space_def trim_def)

lemma initTheme_fresh:
  "os_listener (fst (initTheme False fresh_page))" "snd (initTheme False fresh_page) = None"
  by (simp_all add: initTheme_def Let_def truthy_def fresh_page_def createThemeToggle_def
        createNavActions_def setTheme_def updateThemeToggle_def announceToScreenReader_def
        setTimeout_def light_neq_dark)

text \<open>No event stores the subscribed flag with another value than \<^verbatim>\<open>'true'\<close>, and
  none removes it; the same holds for \<open>initTheme\<close>, which writes the theme key only.\<close>

lemma setTheme_flag: "flag_as_written s \<Longrightarrow> flag_as_written (setTheme t s)"
  by (simp add: flag_as_written_def setTheme_def Let_def storage_keys_distinct)

lemma run_callback_flag:
  "flag_as_written s \<Longrightarrow> flag_as_written (run_callback r x cb s)"
proof (cases cb)
  case (ApiSettle ep e)
  assume h: "flag_as_written s"
  then have h': "flag_as_written (s\<lparr>console := c\<rparr>)" for c
    by (simp add: flag_as_written_def)
  from h h' ApiSettle show ?thesis
    by (cases "api_settle r ep e") (simp_all add: Let_def newsletter_settled_flag)
qed (simp_all add: flag_as_written_def hideToast_def setTimeout_def set_toast_show_def
       removeChild_def split: option.splits)

lemma step_flag:
  assumes "flag_as_written s"
  shows "flag_as_written (step s ev)"
proof (cases ev)
  case (TimerFires i r x)
  have "flag_as_written (s\<lparr>timers := take i (timers s) @ drop (Suc i) (timers s)\<rparr>)"
    using assms by (simp add: flag_as_written_def)
  then have "flag_as_written (run_callback r x (snd (timers s ! i))
        (s\<lparr>timers := take i (timers s) @ drop (Suc i) (timers s)\<rparr>))"
    by (rule run_callback_flag)
  with assms TimerFires show ?thesis by simp
next
  case NewsletterSubmit
  with assms show ?thesis
    by (simp add: flag_as_written_def handleNewsletterSubmit_def Let_def showToast_fields
          simulateAPICall_def setTimeout_def map_form_def split: option.splits)
next
  case ToggleClick
  with assms show ?thesis by (simp add: toggleTheme_def Let_def setTheme_flag)
next
  case (SchemeChange m)
  with assms show ?thesis by (simp add: on_scheme_change_def setTheme_flag)
qed (use assms in \<open>simp_all add: flag_as_written_def showToast_fields hideToast_def
       setTimeout_def set_toast_show_def split: option.splits\<close>)

lemma flag_absent_or_true:
  "flag_as_written s \<Longrightarrow> flag_as_written (run s evs)"
  unfolding run_def
proof (induction evs arbitrary: s)
  case Nil
  then show ?case by simp
next
  case (Cons ev evs)
  from Cons.prems have "flag_as_written (step s ev)" by (rule step_flag)
  then have "flag_as_written (foldl step (step s ev) evs)" by (rule Cons.IH)
  then show ?case by simp
qed

lemma initTheme_flag: "flag_as_written s \<Longrightarrow> flag_as_written (fst (initTheme d s))"
proof -
  assume h: "flag_as_written s"
  have "localStorage (fst (initTheme d s)) storage_newsletterSubscribed
          = localStorage s storage_newsletterSubscribed"
    by (simp add: initTheme_def Let_def after_createThemeToggle setTheme_valid
          storage_keys_distinct)
  with h show ?thesis by (simp add: flag_as_written_def)
qed

lemma initForms_storage: "localStorage (initForms s) = localStorage s"
  by (simp add: initForms_def updateNewsletterFormState_def Let_def split: option.splits)

lemma search_markup_toasts:
  "html_toasts (toast_template (js ''Searching for: <div class=toast>x</div>'')) = 1"
  by (simp add: html_toasts_def toast_template_def quoted_def js_def html_space_def
        ascii_alpha_def ascii_lower_def close_attr_def emit_def)

lemma online_markup_toasts:
  "html_toasts (toast_template (js ''You are back online'')) = 0"
  by (simp add: html_toasts_def toast_template_def quoted_def js_def html_space_def
        ascii_alpha_def ascii_lower_def close_attr_def emit_def)

section \<open>The claims\<close>

text \<open>
  Claim C1 at a first visit.  Nothing is stored, the operating system reports a light
  scheme, \<open>initTheme\<close> completes and registers the listener.  The operating system then
  changes to a dark scheme: the active theme stays \<^verbatim>\<open>light\<close>.  \<open>initTheme\<close> has stored
  the theme it resolved through \<open>setTheme\<close>, so the guard of the listener finds a stored
  value although the user has chosen nothing (\<open>listener_dead_after_init\<close> shows this for
  every page).  Once a value is stored the listener changes nothing
  (\<open>scheme_change_after_choice\<close>), which is the second half of the claim.
\<close>

theorem scheme_change_ignored_after_first_load:
  "localStorage fresh_page storage_theme = None
   \<and> snd (initTheme False fresh_page) = None
   \<and> os_listener (fst (initTheme False fresh_page))
   \<and> data_theme (fst (initTheme False fresh_page)) = Some (js ''light'')
   \<and> data_theme (step (fst (initTheme False fresh_page)) (SchemeChange True)) = Some (js ''light'')"
proof -
  have "data_theme (fst (initTheme False fresh_page)) = Some (js ''light'')"
    by (simp add: initTheme_data_theme fresh_page_def truthy_def)
  moreover have "step (fst (initTheme False fresh_page)) (SchemeChange True)
                   = fst (initTheme False fresh_page)"
    by (simp add: listener_dead_after_init)
  moreover have "os_listener (fst (initTheme False fresh_page))"
    "snd (initTheme False fresh_page) = None"
    by (simp_all add: initTheme_fresh)
  ultimately show ?thesis by (simp add: fresh_page_def)
qed

text \<open>
  Claim C2 at a first visit.  Nothing is stored and the user toggles nothing, yet after
  \<open>initTheme\<close> the theme key holds \<^verbatim>\<open>light\<close>: \<open>setTheme\<close> writes the key on every
  call, the call at the start of \<open>initTheme\<close> included.  That the key is never deleted holds
  (\<open>theme_key_never_deleted\<close>).
\<close>

theorem initTheme_writes_storage:
  "localStorage fresh_page storage_theme = None
   \<and> localStorage (fst (initTheme False fresh_page)) storage_theme = Some (js ''light'')"
  by (simp add: initTheme_storage initTheme_data_theme fresh_page_def truthy_def)

text \<open>
  Claim C3 at a search for markup.  \<^verbatim>\<open>handleSearchSubmit\<close> passes what the user typed
  to \<open>showToast\<close> inside the message.  For the query \<^verbatim>\<open><div class=toast>x</div>\<close> on a
  fresh page the call appends one toast to the body, and
  \<^verbatim>\<open>querySelectorAll('.toast')\<close> then finds two elements: the toast and the
  \<^verbatim>\<open>div\<close> that the message has put into it through \<^verbatim>\<open>innerHTML\<close>.  For the toasts
  that \<open>showToast\<close> appends itself the bound holds through every sequence of events
  (\<open>run_appended\<close>), and a message without such markup gives one element
  (\<open>showToast_count\<close>, \<open>online_markup_toasts\<close>).
\<close>

theorem showToast_markup_second_toast:
  "body_toasts (showToast (js ''Searching for: <div class=toast>x</div>'') (js ''info'')
       fresh_page) = [0]
   \<and> toast_count (showToast (js ''Searching for: <div class=toast>x</div>'') (js ''info'')
       fresh_page) = 2"
  by (simp add: showToast_fields showToast_count search_markup_toasts fresh_page_def)

text \<open>
  Claim C4 as stated fails when the write of the flag throws.  The input is valid and
  the simulated call resolves (\<open>r = 0.5\<close>), the success toast is created, then
  \<^verbatim>\<open>localStorage.setItem\<close> throws inside the \<^verbatim>\<open>try\<close> block: the \<^verbatim>\<open>catch\<close> block
  replaces the toast by the failure toast and the flag is not stored.
\<close>

theorem newsletter_setItem_throws_counterexample:
  "isValidEmail (trim (js ''user@example.com''))
   \<and> api_settle 0.5 api_newsletter (trim (js ''user@example.com''))
        = Resolved True (trim (js ''user@example.com''))
   \<and> toast_elems (run (page_with_email (js ''user@example.com''))
        [NewsletterSubmit, TimerFires 0 0.5 True]) 0 = Some success_toast
   \<and> shown_toasts (run (page_with_email (js ''user@example.com''))
        [NewsletterSubmit, TimerFires 0 0.5 True]) = [Some failure_toast]
   \<and> localStorage (run (page_with_email (js ''user@example.com''))
        [NewsletterSubmit, TimerFires 0 0.5 True]) storage_newsletterSubscribed = None"
proof -
  let ?p = "page_with_email (js ''user@example.com'')"
  have f: "newsletterForm ?p = Some (fresh_form\<lparr>email_value := js ''user@example.com''\<rparr>)"
    by (simp add: page_with_email_def)
  have v: "isValidEmail (trim (email_value (fresh_form\<lparr>email_value := js ''user@example.com''\<rparr>)))"
    using user_example_valid by simp
  have t: "length (timers ?p) = 0" "next_id ?p = 0"
    "localStorage ?p storage_newsletterSubscribed = None"
    by (simp_all add: page_with_email_def fresh_page_def)
  have a: "api_settle 0.5 api_newsletter (trim (js ''user@example.com''))
             = Resolved True (trim (js ''user@example.com''))"
    by (simp add: api_settle_def)
  from two_turns [OF f v, of "0.5" True] t a user_example_valid show ?thesis
    by (simp add: Let_def newsletter_settled_shown newsletter_settled_storage)
qed

text \<open>
  Claim C4, as amended.  A submission whose trimmed input passes \<open>isValidEmail\<close>,
  followed by the callback of the simulated call with the random number \<open>r\<close>, ends in
  exactly one of two outcomes.  When the call resolves (\<open>r > 0.1\<close>) and the write of the
  flag does not throw, the success toast is shown and the subscribed flag is stored, and
  the failure outcome does not hold.  When the call rejects or the write of the flag
  throws, the failure toast is shown with the storage unchanged, and the success outcome
  does not hold.  The same alternative holds for the callback run from any page
  (\<open>settle_outcome\<close>), so events between the two turns do not change it.
\<close>

theorem newsletter_submit_outcome:
  assumes "newsletterForm s = Some f" and "isValidEmail (trim (email_value f))"
  shows "(r > 0.1 \<and> \<not> x
          \<and> newsletter_succeeded s (run s [NewsletterSubmit, TimerFires (length (timers s)) r x])
          \<and> \<not> newsletter_failed s (run s [NewsletterSubmit, TimerFires (length (timers s)) r x]))
       \<or> ((\<not> r > 0.1 \<or> x)
          \<and> newsletter_failed s (run s [NewsletterSubmit, TimerFires (length (timers s)) r x])
          \<and> \<not> newsletter_succeeded s (run s [NewsletterSubmit, TimerFires (length (timers s)) r x]))"
proof -
  let ?s1 = "s\<lparr>newsletterForm := Some (setButtonLoading True f)\<rparr>"
  have rel: "newsletter_succeeded s = newsletter_succeeded ?s1"
    "newsletter_failed s = newsletter_failed ?s1"
    by (rule ext, rule outcome_relative; simp)+
  show ?thesis
    unfolding two_turns [OF assms] rel
    by (rule settle_outcome)
qed

theorem newsletter_submit_outcome_witness:
  "newsletterForm (page_with_email (js ''user@example.com''))
      = Some (fresh_form\<lparr>email_value := js ''user@example.com''\<rparr>)
   \<and> isValidEmail (trim (js ''user@example.com''))
   \<and> newsletter_succeeded (page_with_email (js ''user@example.com''))
        (run (page_with_email (js ''user@example.com''))
           [NewsletterSubmit, TimerFires 0 0.5 False])
   \<and> newsletter_failed (page_with_email (js ''user@example.com''))
        (run (page_with_email (js ''user@example.com''))
           [NewsletterSubmit, TimerFires 0 0.05 False])
   \<and> newsletter_failed (page_with_email (js ''user@example.com''))
        (run (page_with_email (js ''user@example.com''))
           [NewsletterSubmit, TimerFires 0 0.5 True])"
proof -
  let ?p = "page_with_email (js ''user@example.com'')"
  have f: "newsletterForm ?p = Some (fresh_form\<lparr>email_value := js ''user@example.com''\<rparr>)"
    by (simp add: page_with_email_def)
  have v: "isValidEmail (trim (email_value (fresh_form\<lparr>email_value := js ''user@example.com''\<rparr>)))"
    using user_example_valid by simp
  have t: "length (timers ?p) = 0"
    by (simp add: page_with_email_def fresh_page_def)
  from newsletter_submit_outcome [OF f v, where r = "0.5" and x = False]
    newsletter_submit_outcome [OF f v, where r = "0.05" and x = False]
    newsletter_submit_outcome [OF f v, where r = "0.5" and x = True]
    f user_example_valid t
  show ?thesis by simp
qed

text \<open>
  Claim C5.  A submission whose trimmed input does not pass \<open>isValidEmail\<close> creates the
  validation toast and shows it as the only toast.  The only timers it arms are the two
  of that toast, so the timer of the simulated call is not armed and no request is
  attempted.  The storage, the subscribed flag with it, and the form are as before; the
  input only receives the focus.
\<close>

theorem invalid_email_no_request:
  assumes "newsletterForm s = Some f" and "\<not> isValidEmail (trim (email_value f))"
  shows "toast_elems (handleNewsletterSubmit s) = (toast_elems s)(next_id s \<mapsto> validation_toast)
     \<and> body_toasts (handleNewsletterSubmit s) = [next_id s]
     \<and> timers (handleNewsletterSubmit s) =
         timers s @ [(10, ToastShow (next_id s)), (toast_duration, ToastAutoHide (next_id s))]
     \<and> localStorage (handleNewsletterSubmit s) = localStorage s
     \<and> newsletterForm (handleNewsletterSubmit s) = newsletterForm s"
  by (simp add: handleNewsletterSubmit_invalid [OF assms] showToast_fields validation_toast_def)

theorem invalid_email_no_request_witness:
  "newsletterForm (page_with_email (js ''not-an-email''))
      = Some (fresh_form\<lparr>email_value := js ''not-an-email''\<rparr>)
   \<and> \<not> isValidEmail (trim (js ''not-an-email''))
   \<and> toast_elems (handleNewsletterSubmit (page_with_email (js ''not-an-email''))) 0
        = Some validation_toast
   \<and> timers (handleNewsletterSubmit (page_with_email (js ''not-an-email'')))
        = [(10, ToastShow 0), (5000, ToastAutoHide 0)]
   \<and> localStorage (handleNewsletterSubmit (page_with_email (js ''not-an-email'')))
        storage_newsletterSubscribed = None"
proof -
  have f: "newsletterForm (page_with_email (js ''not-an-email''))
             = Some (fresh_form\<lparr>email_value := js ''not-an-email''\<rparr>)"
    by (simp add: page_with_email_def)
  have v: "\<not> isValidEmail (trim (email_value (fresh_form\<lparr>email_value := js ''not-an-email''\<rparr>)))"
    using not_an_email by simp
  from invalid_email_no_request [OF f v] f not_an_email show ?thesis
    by (simp add: page_with_email_def fresh_page_def toast_duration_def)
qed





text \<open>
  Claim C8.  The subscribed flag is in the storage only as the script writes it, with the
  value \<^verbatim>\<open>'true'\<close>: the key is absent on a first visit, no event stores another value
  and none removes it (\<open>flag_absent_or_true\<close>, \<open>initTheme_flag\<close>).  When the flag is
  present in such a storage and the page has the newsletter form, \<open>initForms\<close> renders
  the form disabled: input and button are disabled and the input shows the placeholder
  \<^verbatim>\<open>You are already subscribed!\<close>.
\<close>

theorem initForms_flag_present:
  assumes "flag_as_written s"
    and "localStorage s storage_newsletterSubscribed \<noteq> None"
    and "newsletterForm s = Some f"
  shows "rendered_subscribed (initForms s)"
proof -
  from assms(1,2) have "localStorage s storage_newsletterSubscribed = Some (js ''true'')"
    by (auto simp: flag_as_written_def)
  then have "truthy (localStorage s storage_newsletterSubscribed)"
    by (simp add: truthy_def js_def)
  with assms(3) show ?thesis by (rule initForms_truthy)
qed

theorem initForms_flag_present_witness:
  "flag_as_written (run (page_with_email (js ''user@example.com''))
       [NewsletterSubmit, TimerFires 0 0.5 False])
   \<and> localStorage (run (page_with_email (js ''user@example.com''))
       [NewsletterSubmit, TimerFires 0 0.5 False]) storage_newsletterSubscribed \<noteq> None
   \<and> newsletterForm (page_with_storage [storage_newsletterSubscribed \<mapsto> js ''true''])
       = Some fresh_form
   \<and> rendered_subscribed
       (initForms (page_with_storage [storage_newsletterSubscribed \<mapsto> js ''true'']))"
proof -
  let ?p = "page_with_email (js ''user@example.com'')"
  let ?q = "page_with_storage [storage_newsletterSubscribed \<mapsto> js ''true'']"
  have "flag_as_written ?p"
    by (simp add: flag_as_written_def page_with_email_def fresh_page_def)
  then have a: "flag_as_written (run ?p [NewsletterSubmit, TimerFires 0 0.5 False])"
    by (rule flag_absent_or_true)
  have f: "newsletterForm ?p = Some (fresh_form\<lparr>email_value := js ''user@example.com''\<rparr>)"
    by (simp add: page_with_email_def)
  have v: "isValidEmail (trim (email_value (fresh_form\<lparr>email_value := js ''user@example.com''\<rparr>)))"
    using user_example_valid by simp
  have t: "length (timers ?p) = 0"
    by (simp add: page_with_email_def fresh_page_def)
  have b: "localStorage (run ?p [NewsletterSubmit, TimerFires 0 0.5 False])
             storage_newsletterSubscribed \<noteq> None"
    using two_turns [OF f v, of "0.5" False] t
    by (simp add: api_settle_def Let_def newsletter_settled_storage)
  have q1: "flag_as_written ?q"
    by (simp add: flag_as_written_def page_with_storage_def)
  have q2: "localStorage ?q storage_newsletterSubscribed \<noteq> None"
    by (simp add: page_with_storage_def)
  have q3: "newsletterForm ?q = Some fresh_form"
    by (simp add: page_with_storage_def fresh_page_def)
  from initForms_flag_present [OF q1 q2 q3] a b q3 show ?thesis by simp
qed



text \<open>
  Claim C10.  \<open>isValidEmail\<close> accepts a string exactly when it is a non-empty run of code
  units that are neither white space nor \<^verbatim>\<open>@\<close>, then \<^verbatim>\<open>@\<close>, a second such run, a
  full stop and a third such run.  It rejects \<^verbatim>\<open>a@b\<close>, which has no full stop after the
  \<^verbatim>\<open>@\<close>, and every string that contains white space; nothing else about the string,
  its length included, matters.
\<close>

theorem isValidEmail_shape:
  "(isValidEmail s \<longleftrightarrow> email_shape s)
   \<and> \<not> isValidEmail (js ''a@b'')
   \<and> ((\<exists>c \<in> set s. is_space c) \<longrightarrow> \<not> isValidEmail s)"
proof (intro conjI impI)
  show "isValidEmail s \<longleftrightarrow> email_shape s" by (rule isValidEmail_iff_shape)
  show "\<not> isValidEmail (js ''a@b'')"
    by (simp add: isValidEmail_def emailRegex_def js_def not_space_at_def at_sign_def
          full_stop_def is_space_def)
  assume "\<exists>c \<in> set s. is_space c"
  then show "\<not> isValidEmail s"
    using shape_no_space [of s] by (auto simp: isValidEmail_iff_shape)
qed

theorem isValidEmail_shape_witness:
  "isValidEmail (js ''user@example.com'') \<and> email_shape (js ''user@example.com'')
   \<and> (\<exists>c \<in> set (js ''a b@c.d''). is_space c) \<and> \<not> isValidEmail (js ''a b@c.d'')"
proof -
  have a: "isValidEmail (js ''user@example.com'')"
    by (simp add: isValidEmail_def emailRegex_def js_def not_space_at_def at_sign_def
          full_stop_def is_space_def)
  have b: "\<exists>c \<in> set (js ''a b@c.d''). is_space c"
    by (simp add: js_def is_space_def)
  from a b isValidEmail_shape [of "js ''user@example.com''"]
    isValidEmail_shape [of "js ''a b@c.d''"]
  show ?thesis by blast
qed

end
